theory Spec2Isabelle
  imports Main
begin

section \<open>Element model (components/types.ts)\<close>

text \<open>
  The four element variants of \<^verbatim>\<open>components/types.ts\<close>. The \<^verbatim>\<open>style\<close> envelope
  (layout properties of the rendering library) plays no part in any function modelled
  here and is left out. The \<^verbatim>\<open>value\<close> of a select element is a string in every
  element list of the repository; its \<^verbatim>\<open>onSelect\<close> callback is represented by an
  identifier of the callback.
\<close>

datatype ElementType = text_input | select | checkbox | separator

type_synonym action = nat

text \<open>
  Constructor arguments, in order: \<open>InputElement label placeholder identifier mask\<close>,
  \<open>SelectElement label value description onSelect\<close>, \<open>CheckboxElement label identifier\<close>,
  \<open>SeparatorElement label dividerChar\<close>; an optional property is an \<open>option\<close>.
\<close>

datatype Element =
    InputElement string "string option" string "string option"
  | SelectElement string "string option" "string option" "action option"
  | CheckboxElement string string
  | SeparatorElement "string option" "string option"

text \<open>The \<^verbatim>\<open>type\<close> tag of an element.\<close>

fun elem_type :: "Element \<Rightarrow> ElementType" where
  "elem_type (InputElement _ _ _ _) = text_input"
| "elem_type (SelectElement _ _ _ _) = select"
| "elem_type (CheckboxElement _ _) = checkbox"
| "elem_type (SeparatorElement _ _) = separator"

section \<open>Errors\<close>

text \<open>
  Every \<^verbatim>\<open>throw\<close> site of the modelled functions is a constructor.
  \<^item> \<open>TypeError\<close>: reading \<^verbatim>\<open>.type\<close> of \<^verbatim>\<open>undefined\<close> (an array read out of range);
  \<^item> \<open>InvalidURL\<close>: \<^verbatim>\<open>new URL(s)\<close> on a string that is not a URL;
  \<^item> \<open>MutualExclusion\<close>, \<open>IncompleteGroup prefix missingArgs\<close>: the two
    \<^verbatim>\<open>throw new Error(...)\<close> of the flag resolver; the arguments of the second are the
    two values its message interpolates (\<^verbatim>\<open>missingArgs\<close> joined with a comma);
  \<^item> \<open>MissingDatabase\<close>: the \<^verbatim>\<open>throw new Error(...)\<close> of \<^verbatim>\<open>populateMongoDatabase\<close>.
\<close>

datatype error =
    TypeError
  | InvalidURL
  | MutualExclusion
  | IncompleteGroup string "string list"
  | MissingDatabase

section \<open>Cursor engine (components/helpers.ts)\<close>

text \<open>
  \<^verbatim>\<open>elements[i]\<close> for a JavaScript array and an integral index: the element when
  \<open>0 \<le> i < length\<close>, \<^verbatim>\<open>undefined\<close> (\<open>None\<close>) otherwise. The cursor is a JavaScript
  number; the prompt only ever holds integers in it (it starts at 0 and is changed by
  \<open>up\<close> and \<open>down\<close> alone), so it is an \<open>int\<close> here.
\<close>

definition at :: "'a list \<Rightarrow> int \<Rightarrow> 'a option" where
  "at xs i = (if 0 \<le> i \<and> i < int (length xs) then Some (xs ! nat i) else None)"

text \<open>
  The \<^verbatim>\<open>while\<close> loop of \<^verbatim>\<open>down\<close>: it advances the cursor while the next element is
  a separator. The test \<^verbatim>\<open>cursor < length - 1\<close> comes first (\<^verbatim>\<open>&&\<close> is lazy), then
  \<^verbatim>\<open>elements[cursor + 1].type\<close> is read, which throws on \<^verbatim>\<open>undefined\<close>.
\<close>

function down_loop :: "int \<Rightarrow> Element list \<Rightarrow> error + int" where
  "down_loop cursor elements =
     (if cursor < int (length elements) - 1 then
        (case at elements (cursor + 1) of
           None \<Rightarrow> Inl TypeError
         | Some e \<Rightarrow>
             if elem_type e = separator then down_loop (cursor + 1) elements
             else Inr cursor)
      else Inr cursor)"
  by pat_completeness auto
termination
  by (relation "measure (\<lambda>(cursor, elements). nat (int (length elements) - cursor))") auto

declare down_loop.simps [simp del]

definition down :: "int \<Rightarrow> Element list \<Rightarrow> error + int" where
  "down cursor elements =
     (case down_loop cursor elements of
        Inl e \<Rightarrow> Inl e
      | Inr c \<Rightarrow> Inr (if c < int (length elements) - 1 then c + 1 else c))"

text \<open>The \<^verbatim>\<open>while\<close> loop of \<^verbatim>\<open>up\<close>, retreating while the previous element is a separator.\<close>

function up_loop :: "int \<Rightarrow> Element list \<Rightarrow> error + int" where
  "up_loop cursor elements =
     (if cursor > 0 then
        (case at elements (cursor - 1) of
           None \<Rightarrow> Inl TypeError
         | Some e \<Rightarrow>
             if elem_type e = separator then up_loop (cursor - 1) elements
             else Inr cursor)
      else Inr cursor)"
  by pat_completeness auto
termination
  by (relation "measure (\<lambda>(cursor, elements). nat cursor)") auto

declare up_loop.simps [simp del]

definition up :: "int \<Rightarrow> Element list \<Rightarrow> error + int" where
  "up cursor elements =
     (case up_loop cursor elements of
        Inl e \<Rightarrow> Inl e
      | Inr c \<Rightarrow> Inr (if c > 0 then c - 1 else c))"




section \<open>Spinner tracker and select handler (components/BoxPrompt.tsx)\<close>

datatype SpinnerState = running | succeeded | failed

text \<open>
  \<^verbatim>\<open>spinnersByCursor\<close>: the spinner state per element index; an index with no entry
  reads \<^verbatim>\<open>undefined\<close>.
\<close>

type_synonym spinners = "nat \<rightharpoonup> SpinnerState"

text \<open>The state updates behind \<^verbatim>\<open>startSpinner\<close> and \<^verbatim>\<open>stopSpinner\<close>.\<close>

definition addSpinner :: "nat \<Rightarrow> spinners \<Rightarrow> spinners" where
  "addSpinner spinnerCursor prev = prev(spinnerCursor \<mapsto> running)"

definition removeSpinner :: "nat \<Rightarrow> SpinnerState \<Rightarrow> spinners \<Rightarrow> spinners" where
  "removeSpinner spinnerCursor st prev = prev(spinnerCursor \<mapsto> st)"

text \<open>
  What selecting an element does, as the calls it makes: either the element's own
  \<^verbatim>\<open>onSelect\<close> callback is invoked (for the element index and the selected value), or
  \<^verbatim>\<open>submitPrompt(value)\<close> runs, which calls \<^verbatim>\<open>props.onSubmit\<close> with the selected value
  and \<^verbatim>\<open>goBack = false\<close>.
\<close>

datatype call = InvokeOnSelect action nat "string option" | SubmitPrompt "string option" bool

text \<open>
  The \<^verbatim>\<open>onSelect\<close> handler the prompt passes to the \<^verbatim>\<open>SelectItem\<close> of the select element
  at \<open>elemIndex\<close>, whose own optional callback is \<open>e_onSelect\<close>:
  \<^verbatim>\<open>if (e.onSelect && spinnersByCursor[elemIndex] !== "running") { return e.onSelect(...) }
  submitPrompt(value)\<close>.
\<close>

definition select_handler :: "spinners \<Rightarrow> action option \<Rightarrow> nat \<Rightarrow> string option \<Rightarrow> call list" where
  "select_handler spinnersByCursor e_onSelect elemIndex v =
     (if e_onSelect \<noteq> None \<and> spinnersByCursor elemIndex \<noteq> Some running
      then [InvokeOnSelect (the e_onSelect) elemIndex v]
      else [SubmitPrompt v False])"

section \<open>JavaScript numbers and \<^verbatim>\<open>parseInt\<close>\<close>

text \<open>
  The result of \<^verbatim>\<open>parseInt\<close>: \<^verbatim>\<open>NaN\<close> or an integral number. Numbers are kept exact
  (a JavaScript number rounds integers beyond \<open>2^53\<close>, far above any port).
\<close>

datatype number = NaN | Num int

definition isWhiteSpace :: "char \<Rightarrow> bool" where
  "isWhiteSpace c = (of_char c \<in> {9, 10, 11, 12, 13, 32 :: nat})"

definition isDigit :: "char \<Rightarrow> bool" where
  "isDigit c = (c \<in> set ''0123456789'')"

definition mathInt :: "string \<Rightarrow> int" where
  "mathInt Z = foldl (\<lambda>acc c. 10 * acc + (int (of_char c) - 48)) 0 Z"

text \<open>
  \<^verbatim>\<open>parseInt(v, 10)\<close> as ECMAScript defines it, for an argument that is a string or
  \<^verbatim>\<open>undefined\<close>: the argument is converted to a string (\<^verbatim>\<open>undefined\<close> gives
  \<^verbatim>\<open>"undefined"\<close>), leading white space is dropped, a sign is read, and the longest
  prefix of decimal digits is the value; with no digit the result is \<^verbatim>\<open>NaN\<close>. White
  space is the ASCII part of the language's white space and line terminators (tab,
  line feed, vertical tab, form feed, carriage return, space).
\<close>

definition parseInt :: "string option \<Rightarrow> number" where
  "parseInt v =
     (let inputString = (case v of None \<Rightarrow> ''undefined'' | Some s \<Rightarrow> s);
          S = dropWhile isWhiteSpace inputString;
          sign = (if take 1 S = ''-'' then - 1 else 1);
          S' = (if take 1 S = ''-'' \<or> take 1 S = ''+'' then drop 1 S else S);
          Z = takeWhile isDigit S'
      in if Z = [] then NaN else Num (sign * mathInt Z))"

text \<open>Truthiness of a value that is a string or \<^verbatim>\<open>undefined\<close>.\<close>

definition truthy :: "string option \<Rightarrow> bool" where
  "truthy v = (case v of None \<Rightarrow> False | Some s \<Rightarrow> s \<noteq> [])"

section \<open>The platform's URL class\<close>

text \<open>
  A parsed URL as the functions below use it: a URL serialises as the scheme and
  authority, then the path, then the query and fragment (\<^verbatim>\<open>toString\<close>), and
  \<^verbatim>\<open>pathname\<close> reads the path. \<open>opaque_path\<close> marks a URL with no hierarchy
  (\<^verbatim>\<open>scheme:rest\<close>, the standard's opaque path).
\<close>

record URL =
  origin_part :: string
  pathname :: string
  search_hash :: string
  opaque_path :: bool

definition URL_toString :: "URL \<Rightarrow> string" where
  "URL_toString url = origin_part url @ pathname url @ search_hash url"

text \<open>
  The \<^verbatim>\<open>pathname\<close> setter of the URL standard: a URL with an opaque path ignores it;
  otherwise the new path is the value with a leading slash. The value is taken as it
  is, which is the standard's result for a value without dot segments or characters
  to escape, such as the literal \<^verbatim>\<open>"admin"\<close> the source assigns.
\<close>

definition set_pathname :: "URL \<Rightarrow> string \<Rightarrow> URL" where
  "set_pathname url v =
     (if opaque_path url then url
      else url\<lparr>pathname := (if take 1 v = ''/'' then v else ''/'' @ v)\<rparr>)"

text \<open>
  \<^verbatim>\<open>new URL(s)\<close> is a parameter \<open>parseURL\<close> of the functions that call it: \<open>None\<close>
  when the constructor throws. Every theorem about these functions holds for every
  such parser. \<open>URL_parse\<close> is the instance used for concrete inputs:
  the standard's parser on a URL of a non-special scheme (such as \<^verbatim>\<open>mongodb:\<close>) that
  needs no normalisation, \<^verbatim>\<open>scheme://authority/path?query#fragment\<close> or
  \<^verbatim>\<open>scheme:opaque\<close>.
\<close>

definition isSchemeChar :: "char \<Rightarrow> bool" where
  "isSchemeChar c =
     (c \<in> set ''abcdefghijklmnopqrstuvwxyzABCDEFGHIJKLMNOPQRSTUVWXYZ0123456789+-.'')"

definition isAlpha :: "char \<Rightarrow> bool" where
  "isAlpha c = (c \<in> set ''abcdefghijklmnopqrstuvwxyzABCDEFGHIJKLMNOPQRSTUVWXYZ'')"

definition URL_parse :: "string \<Rightarrow> URL option" where
  "URL_parse s =
     (let scheme = takeWhile (\<lambda>c. c \<noteq> CHR '':'') s;
          r = drop (length scheme + 1) s
      in if scheme = [] \<or> length scheme = length s \<or> \<not> isAlpha (hd scheme)
            \<or> \<not> list_all isSchemeChar scheme
         then None
         else if take 2 r = ''//'' then
           (let authority = takeWhile (\<lambda>c. c \<notin> set ''/?#'') (drop 2 r);
                r2 = drop (length authority) (drop 2 r);
                path = takeWhile (\<lambda>c. c \<notin> set ''?#'') r2
            in Some \<lparr>origin_part = scheme @ ''://'' @ authority, pathname = path,
                     search_hash = drop (length path) r2, opaque_path = False\<rparr>)
         else
           (let path = takeWhile (\<lambda>c. c \<notin> set ''?#'') r
            in Some \<lparr>origin_part = scheme @ '':'', pathname = path,
                     search_hash = drop (length path) r, opaque_path = (take 1 r \<noteq> ''/'')\<rparr>))"

section \<open>Mongo URI helpers (introspect/util.ts)\<close>

definition sanitizeMongoUri :: "(string \<Rightarrow> URL option) \<Rightarrow> string \<Rightarrow> error + string" where
  "sanitizeMongoUri parseURL mongoUri =
     (case parseURL mongoUri of
        None \<Rightarrow> Inl InvalidURL
      | Some url \<Rightarrow>
          Inr (URL_toString
                (if pathname url = ''/'' \<or> length (pathname url) = 0
                 then set_pathname url ''admin'' else url)))"

text \<open>The object \<^verbatim>\<open>{ uri, database }\<close> that \<^verbatim>\<open>populateMongoDatabase\<close> returns.\<close>

record UriAndDatabase =
  uri' :: string
  database' :: string

text \<open>
  \<^verbatim>\<open>populateMongoDatabase({ uri, database })\<close>; the optional \<^verbatim>\<open>database\<close> is
  \<^verbatim>\<open>undefined\<close> when \<open>None\<close>. \<^verbatim>\<open>!database\<close> holds for \<^verbatim>\<open>undefined\<close> and for the empty
  string; \<^verbatim>\<open>url.pathname.slice(1)\<close> drops the first character.
\<close>

definition populateMongoDatabase ::
    "(string \<Rightarrow> URL option) \<Rightarrow> string \<Rightarrow> string option \<Rightarrow> error + UriAndDatabase" where
  "populateMongoDatabase parseURL uri database =
     (case parseURL uri of
        None \<Rightarrow> Inl InvalidURL
      | Some url \<Rightarrow>
          if (pathname url = ''/'' \<or> length (pathname url) = 0) \<and> \<not> truthy database
          then Inl MissingDatabase
          else Inr \<lparr>uri' = uri,
                    database' = (if \<not> truthy database then drop 1 (pathname url)
                                 else the database)\<rparr>)"

section \<open>Flag credential resolver (index.ts)\<close>

text \<open>
  The parsed command line, \<^verbatim>\<open>Result<Args>\<close>: one optional property per flag of
  \<^verbatim>\<open>Args\<close>, a string for a \<^verbatim>\<open>String\<close> flag and a boolean for a \<^verbatim>\<open>Boolean\<close> flag, and the
  positional arguments under \<^verbatim>\<open>_\<close>. A flag that was not given has no property
  (\<open>None\<close>); aliases are resolved by the argument parser and are never keys.
\<close>

record Args =
  positional :: "string list"
  interactive :: "bool option"
  env_file :: "string option"
  project :: "string option"
  help_flag :: "bool option"
  pg_host :: "string option"
  pg_port :: "string option"
  pg_user :: "string option"
  pg_password :: "string option"
  pg_db :: "string option"
  pg_ssl :: "bool option"
  pg_schema :: "string option"
  mysql_host :: "string option"
  mysql_port :: "string option"
  mysql_user :: "string option"
  mysql_password :: "string option"
  mysql_db :: "string option"
  mongo_uri :: "string option"
  mongo_db :: "string option"
  sdl :: "bool option"

text \<open>The key of a property, listed when the property is there.\<close>

definition present :: "string \<Rightarrow> 'a option \<Rightarrow> string list" where
  "present k v = (case v of None \<Rightarrow> [] | Some _ \<Rightarrow> [k])"

text \<open>
  \<^verbatim>\<open>Object.keys(args)\<close>: the keys of the properties that are there. JavaScript lists
  them in the order the parser added them; the resolver takes only lengths and
  membership of the lists it filters from them, so they are listed in the order of
  the record.
\<close>

definition Object_keys :: "Args \<Rightarrow> string list" where
  "Object_keys args =
     ''_'' # present ''--interactive'' (interactive args) @ present ''--env-file'' (env_file args)
       @ present ''--project'' (project args) @ present ''--help'' (help_flag args)
       @ present ''--pg-host'' (pg_host args) @ present ''--pg-port'' (pg_port args)
       @ present ''--pg-user'' (pg_user args) @ present ''--pg-password'' (pg_password args)
       @ present ''--pg-db'' (pg_db args) @ present ''--pg-ssl'' (pg_ssl args)
       @ present ''--pg-schema'' (pg_schema args)
       @ present ''--mysql-host'' (mysql_host args) @ present ''--mysql-port'' (mysql_port args)
       @ present ''--mysql-user'' (mysql_user args)
       @ present ''--mysql-password'' (mysql_password args)
       @ present ''--mysql-db'' (mysql_db args)
       @ present ''--mongo-uri'' (mongo_uri args) @ present ''--mongo-db'' (mongo_db args)
       @ present ''--sdl'' (sdl args)"

datatype DatabaseType = postgres | mysql | mongo

text \<open>
  \<^verbatim>\<open>DatabaseCredentials\<close>, with the properties the resolver writes. A property that
  the object literal leaves out, or sets to \<^verbatim>\<open>undefined\<close>, reads \<^verbatim>\<open>undefined\<close>: \<open>None\<close>.
\<close>

record DatabaseCredentials =
  type :: DatabaseType
  host :: "string option"
  port :: "number option"
  user :: "string option"
  password :: "string option"
  database :: "string option"
  schema :: "string option"
  uri :: "string option"

definition requiredPostgresFlags :: "string list" where
  "requiredPostgresFlags = [''--pg-host'', ''--pg-user'', ''--pg-password'', ''--pg-db'']"

definition requiredMysqlFlags :: "string list" where
  "requiredMysqlFlags = [''--mysql-host'', ''--mysql-user'', ''--mysql-password'']"

text \<open>\<^verbatim>\<open>handleMissingArgs\<close> always throws; this is the error it throws.\<close>

definition handleMissingArgs :: "string list \<Rightarrow> string list \<Rightarrow> string \<Rightarrow> error" where
  "handleMissingArgs requiredArgs providedArgs prefix =
     (let missingArgs =
            filter (\<lambda>arg. \<not> list_ex (\<lambda>provided. arg = provided) providedArgs) requiredArgs
      in IncompleteGroup prefix missingArgs)"

text \<open>
  \<^verbatim>\<open>getCredentialsByFlags\<close>: \<open>Inl\<close> an error thrown, \<open>Inr None\<close> the \<^verbatim>\<open>null\<close> that sends
  the caller to the interactive prompt, \<open>Inr (Some c)\<close> the credentials.
\<close>

definition getCredentialsByFlags ::
    "(string \<Rightarrow> URL option) \<Rightarrow> Args \<Rightarrow> error + DatabaseCredentials option" where
  "getCredentialsByFlags parseURL args =
     (let flagsKeys = Object_keys args;
          mysqlFlags = filter (\<lambda>f. f \<in> set requiredMysqlFlags) flagsKeys;
          postgresFlags = filter (\<lambda>f. f \<in> set requiredPostgresFlags) flagsKeys
      in if length mysqlFlags > 0 \<and> length postgresFlags > 0 then Inl MutualExclusion
         else if length mysqlFlags > 0 \<and> length mysqlFlags < length requiredMysqlFlags
         then Inl (handleMissingArgs requiredMysqlFlags mysqlFlags ''mysql'')
         else if length postgresFlags > 0 \<and> length postgresFlags < length requiredPostgresFlags
         then Inl (handleMissingArgs requiredPostgresFlags postgresFlags ''pg'')
         else if length mysqlFlags \<ge> length requiredMysqlFlags
         then Inr (Some \<lparr>type = mysql, host = mysql_host args,
                          port = Some (parseInt (mysql_port args)), user = mysql_user args,
                          password = mysql_password args, database = None,
                          schema = mysql_db args, uri = None\<rparr>)
         else if length postgresFlags \<ge> length requiredPostgresFlags
         then Inr (Some \<lparr>type = postgres, host = pg_host args,
                          port = Some (parseInt (pg_port args)), user = pg_user args,
                          password = pg_password args, database = pg_db args,
                          schema = pg_schema args, uri = None\<rparr>)
         else if truthy (mongo_uri args) then
           (case populateMongoDatabase parseURL (the (mongo_uri args)) (mongo_db args) of
              Inl e \<Rightarrow> Inl e
            | Inr credentials \<Rightarrow>
                (case sanitizeMongoUri parseURL (uri' credentials) of
                   Inl e \<Rightarrow> Inl e
                 | Inr u \<Rightarrow>
                     Inr (Some \<lparr>type = mongo, host = None, port = None, user = None,
                                password = None, database = None,
                                schema = Some (database' credentials), uri = Some u\<rparr>)))
         else Inr None)"

text \<open>
  The flags of a group that the command line gives and those it lacks, both in the
  order of the group's list.
\<close>

definition provided :: "Args \<Rightarrow> string list \<Rightarrow> string list" where
  "provided args flags = filter (\<lambda>k. k \<in> set (Object_keys args)) flags"

definition missing :: "Args \<Rightarrow> string list \<Rightarrow> string list" where
  "missing args flags = filter (\<lambda>k. k \<notin> set (Object_keys args)) flags"

text \<open>The command line with no flag at all.\<close>

definition no_flags :: Args where
  "no_flags = \<lparr>positional = [], interactive = None, env_file = None, project = None,
     help_flag = None, pg_host = None, pg_port = None, pg_user = None, pg_password = None,
     pg_db = None, pg_ssl = None, pg_schema = None, mysql_host = None, mysql_port = None,
     mysql_user = None, mysql_password = None, mysql_db = None, mongo_uri = None,
     mongo_db = None, sdl = None\<rparr>"

section \<open>Verification: cursor engine\<close>








text \<open>
  C7, evaluated on the code. With no element but separators beyond the cursor, \<open>down\<close>
  and \<open>up\<close> do not return the cursor they were given: the loop has moved it to the end
  of the list, over the separators, and that position is returned.
\<close>

theorem down_up_move_onto_trailing_separators:
  "down 0 [SelectElement ''A'' None None None, SeparatorElement None None,
           SeparatorElement None None] = Inr 2 \<and>
   up 2 [SeparatorElement None None, SeparatorElement None None,
         SelectElement ''A'' None None None] = Inr 0 \<and>
   down 0 [SeparatorElement None None, SeparatorElement None None,
           SeparatorElement None None] = Inr 2 \<and>
   up 2 [SeparatorElement None None, SeparatorElement None None,
         SeparatorElement None None] = Inr 0"
  by (simp add: down_def up_def down_loop.simps up_loop.simps at_def)

section \<open>Verification: flag credential resolver\<close>

text \<open>The keys of \<open>Object_keys\<close> are pairwise different, as the keys of an object are.\<close>

lemma mem_present: "k' \<in> set (present k v) \<longleftrightarrow> k' = k \<and> v \<noteq> None"
  by (cases v) (auto simp: present_def)

lemma distinct_present: "distinct (present k v)"
  by (cases v) (auto simp: present_def)

lemma mem_present_append:
  "k' \<in> set (present k v @ xs) \<longleftrightarrow> (k' = k \<and> v \<noteq> None) \<or> k' \<in> set xs"
  by (cases v) (auto simp: present_def)

lemma distinct_present_append:
  "distinct (present k v @ xs) \<longleftrightarrow> (v = None \<or> k \<notin> set xs) \<and> distinct xs"
  by (cases v) (auto simp: present_def)

lemma distinct_Object_keys: "distinct (Object_keys args)"
  by (simp add: Object_keys_def distinct_present mem_present mem_present_append
        distinct_present_append del: distinct_append set_append)

text \<open>
  The resolver counts the keys of a group among the keys given. With distinct keys the
  counts say which flags of the group are given and which are missing.
\<close>

lemma length_filter_pos:
  "(0 < length (filter (\<lambda>f. f \<in> set req) keys)) = (filter (\<lambda>k. k \<in> set keys) req \<noteq> [])"
  by (auto simp: filter_empty_conv)

lemma length_filter_less:
  assumes "distinct keys" and "distinct req"
  shows "(length (filter (\<lambda>f. f \<in> set req) keys) < length req)
           = (filter (\<lambda>k. k \<notin> set keys) req \<noteq> [])"
proof -
  have "length (filter (\<lambda>f. f \<in> set req) keys) = card (set keys \<inter> set req)"
    using assms(1) by (simp add: distinct_length_filter Int_commute Collect_mem_eq)
  moreover have "length req = card (set req)"
    using assms(2) by (simp add: distinct_card)
  moreover have "(card (set keys \<inter> set req) < card (set req)) = (\<exists>k\<in>set req. k \<notin> set keys)"
  proof
    assume "card (set keys \<inter> set req) < card (set req)"
    then have "set keys \<inter> set req \<noteq> set req" by auto
    then show "\<exists>k\<in>set req. k \<notin> set keys" by auto
  next
    assume "\<exists>k\<in>set req. k \<notin> set keys"
    then have "set keys \<inter> set req \<subset> set req" by auto
    then show "card (set keys \<inter> set req) < card (set req)"
      by (simp add: psubset_card_mono)
  qed
  ultimately show ?thesis by (auto simp: filter_empty_conv)
qed

lemma handleMissingArgs_filter:
  "handleMissingArgs req (filter (\<lambda>f. f \<in> set req) keys) prefix
     = IncompleteGroup prefix (filter (\<lambda>k. k \<notin> set keys) req)"
proof -
  have "filter (\<lambda>arg. \<not> list_ex (\<lambda>provided. arg = provided) (filter (\<lambda>f. f \<in> set req) keys)) req
          = filter (\<lambda>k. k \<notin> set keys) req"
    by (rule filter_cong) (auto simp: list_ex_iff)
  then show ?thesis by (simp add: handleMissingArgs_def)
qed

lemma distinct_required:
  "distinct requiredPostgresFlags" "distinct requiredMysqlFlags"
  by (simp_all add: requiredPostgresFlags_def requiredMysqlFlags_def)

lemma group_given:
  "(0 < length (filter (\<lambda>f. f \<in> set req) (Object_keys args))) = (provided args req \<noteq> [])"
  by (simp only: length_filter_pos provided_def)

lemma group_incomplete:
  "distinct req \<Longrightarrow>
   (length (filter (\<lambda>f. f \<in> set req) (Object_keys args)) < length req) = (missing args req \<noteq> [])"
  by (simp only: length_filter_less[OF distinct_Object_keys] missing_def)

lemma group_complete:
  "distinct req \<Longrightarrow>
   (length req \<le> length (filter (\<lambda>f. f \<in> set req) (Object_keys args))) = (missing args req = [])"
  using group_incomplete[of req args] by (simp add: not_less[symmetric])

lemma group_error:
  "handleMissingArgs req (filter (\<lambda>f. f \<in> set req) (Object_keys args)) prefix
     = IncompleteGroup prefix (missing args req)"
  by (simp only: handleMissingArgs_filter missing_def)

text \<open>The resolver, branch by branch, in terms of the flags given and missing.\<close>

lemma getCredentialsByFlags_cases:
  "getCredentialsByFlags parseURL args =
     (if provided args requiredMysqlFlags \<noteq> [] \<and> provided args requiredPostgresFlags \<noteq> []
      then Inl MutualExclusion
      else if provided args requiredMysqlFlags \<noteq> [] \<and> missing args requiredMysqlFlags \<noteq> []
      then Inl (IncompleteGroup ''mysql'' (missing args requiredMysqlFlags))
      else if provided args requiredPostgresFlags \<noteq> [] \<and> missing args requiredPostgresFlags \<noteq> []
      then Inl (IncompleteGroup ''pg'' (missing args requiredPostgresFlags))
      else if missing args requiredMysqlFlags = []
      then Inr (Some \<lparr>type = mysql, host = mysql_host args,
                       port = Some (parseInt (mysql_port args)), user = mysql_user args,
                       password = mysql_password args, database = None,
                       schema = mysql_db args, uri = None\<rparr>)
      else if missing args requiredPostgresFlags = []
      then Inr (Some \<lparr>type = postgres, host = pg_host args,
                       port = Some (parseInt (pg_port args)), user = pg_user args,
                       password = pg_password args, database = pg_db args,
                       schema = pg_schema args, uri = None\<rparr>)
      else if truthy (mongo_uri args) then
        (case populateMongoDatabase parseURL (the (mongo_uri args)) (mongo_db args) of
           Inl e \<Rightarrow> Inl e
         | Inr credentials \<Rightarrow>
             (case sanitizeMongoUri parseURL (uri' credentials) of
                Inl e \<Rightarrow> Inl e
              | Inr u \<Rightarrow>
                  Inr (Some \<lparr>type = mongo, host = None, port = None, user = None,
                             password = None, database = None,
                             schema = Some (database' credentials), uri = Some u\<rparr>)))
      else Inr None)"
  unfolding getCredentialsByFlags_def Let_def
  by (simp only: group_given group_incomplete[OF distinct_required(1)]
        group_incomplete[OF distinct_required(2)] group_complete[OF distinct_required(1)]
        group_complete[OF distinct_required(2)] group_error)

lemma provided_nonempty:
  "k \<in> set flags \<Longrightarrow> k \<in> set (Object_keys args) \<Longrightarrow> provided args flags \<noteq> []"
  by (auto simp: provided_def filter_empty_conv)

lemma provided_missing_length:
  "length (provided args flags) + length (missing args flags) = length flags"
  unfolding provided_def missing_def by (rule sum_length_filter_compl)

lemma required_nonempty:
  "missing args requiredPostgresFlags = [] \<Longrightarrow> provided args requiredPostgresFlags \<noteq> []"
  "missing args requiredMysqlFlags = [] \<Longrightarrow> provided args requiredMysqlFlags \<noteq> []"
  "provided args requiredPostgresFlags = [] \<Longrightarrow> missing args requiredPostgresFlags \<noteq> []"
  "provided args requiredMysqlFlags = [] \<Longrightarrow> missing args requiredMysqlFlags \<noteq> []"
  using provided_missing_length[of args requiredPostgresFlags]
        provided_missing_length[of args requiredMysqlFlags]
  by (auto simp: requiredPostgresFlags_def requiredMysqlFlags_def)

text \<open>
  C5. When the command line gives at least one required Postgres flag and at least one
  required MySQL flag, whatever else it gives, the resolver throws the mutual exclusion
  error: it returns no credentials and reports no incomplete group.
\<close>

theorem mixed_families_fail_with_mutual_exclusion:
  assumes "p \<in> set requiredPostgresFlags" and "p \<in> set (Object_keys args)"
    and "m \<in> set requiredMysqlFlags" and "m \<in> set (Object_keys args)"
  shows "getCredentialsByFlags parseURL args = Inl MutualExclusion"
proof -
  have "provided args requiredPostgresFlags \<noteq> []" "provided args requiredMysqlFlags \<noteq> []"
    using assms by (simp_all add: provided_nonempty)
  then show ?thesis by (simp add: getCredentialsByFlags_cases)
qed

text \<open>Witness: both groups complete, with a Mongo URI and \<^verbatim>\<open>--sdl\<close> besides.\<close>

theorem mixed_families_fail_with_mutual_exclusion_witness:
  "''--pg-host'' \<in> set requiredPostgresFlags \<and>
   ''--pg-host'' \<in> set (Object_keys (no_flags\<lparr>pg_host := Some ''h'', pg_user := Some ''u'',
       pg_password := Some ''p'', pg_db := Some ''d'', mysql_host := Some ''h'',
       mysql_user := Some ''u'', mysql_password := Some ''p'',
       mongo_uri := Some ''mongodb://host/db'', sdl := Some True\<rparr>)) \<and>
   ''--mysql-user'' \<in> set requiredMysqlFlags \<and>
   ''--mysql-user'' \<in> set (Object_keys (no_flags\<lparr>pg_host := Some ''h'', pg_user := Some ''u'',
       pg_password := Some ''p'', pg_db := Some ''d'', mysql_host := Some ''h'',
       mysql_user := Some ''u'', mysql_password := Some ''p'',
       mongo_uri := Some ''mongodb://host/db'', sdl := Some True\<rparr>)) \<and>
   getCredentialsByFlags URL_parse (no_flags\<lparr>pg_host := Some ''h'', pg_user := Some ''u'',
       pg_password := Some ''p'', pg_db := Some ''d'', mysql_host := Some ''h'',
       mysql_user := Some ''u'', mysql_password := Some ''p'',
       mongo_uri := Some ''mongodb://host/db'', sdl := Some True\<rparr>) = Inl MutualExclusion"
proof -
  let ?args = "no_flags\<lparr>pg_host := Some ''h'', pg_user := Some ''u'',
       pg_password := Some ''p'', pg_db := Some ''d'', mysql_host := Some ''h'',
       mysql_user := Some ''u'', mysql_password := Some ''p'',
       mongo_uri := Some ''mongodb://host/db'', sdl := Some True\<rparr>"
  have p: "''--pg-host'' \<in> set requiredPostgresFlags" "''--pg-host'' \<in> set (Object_keys ?args)"
    by code_simp+
  have m: "''--mysql-user'' \<in> set requiredMysqlFlags" "''--mysql-user'' \<in> set (Object_keys ?args)"
    by code_simp+
  from mixed_families_fail_with_mutual_exclusion[OF p m, of URL_parse] p m
  show ?thesis by simp
qed

text \<open>
  C4, as amended. When some but not all required flags of one family are given and no
  required flag of the other family is, the resolver throws the incomplete group error
  of that family, and the error names exactly the required flags that are missing, in
  the order of the family's list of required flags.
\<close>

theorem incomplete_group_names_missing_flags:
  "(provided args requiredPostgresFlags \<noteq> [] \<and> missing args requiredPostgresFlags \<noteq> [] \<and>
    provided args requiredMysqlFlags = []
      \<longrightarrow> getCredentialsByFlags parseURL args
            = Inl (IncompleteGroup ''pg'' (missing args requiredPostgresFlags))) \<and>
   (provided args requiredMysqlFlags \<noteq> [] \<and> missing args requiredMysqlFlags \<noteq> [] \<and>
    provided args requiredPostgresFlags = []
      \<longrightarrow> getCredentialsByFlags parseURL args
            = Inl (IncompleteGroup ''mysql'' (missing args requiredMysqlFlags)))"
  by (simp add: getCredentialsByFlags_cases)

text \<open>
  Witness: \<^verbatim>\<open>--pg-host\<close> and \<^verbatim>\<open>--pg-user\<close> alone; and \<^verbatim>\<open>--mysql-password\<close> alone.
\<close>

theorem incomplete_group_names_missing_flags_witness:
  "provided (no_flags\<lparr>pg_host := Some ''h'', pg_user := Some ''u''\<rparr>) requiredPostgresFlags \<noteq> [] \<and>
   missing (no_flags\<lparr>pg_host := Some ''h'', pg_user := Some ''u''\<rparr>) requiredPostgresFlags
     = [''--pg-password'', ''--pg-db''] \<and>
   provided (no_flags\<lparr>pg_host := Some ''h'', pg_user := Some ''u''\<rparr>) requiredMysqlFlags = [] \<and>
   getCredentialsByFlags URL_parse (no_flags\<lparr>pg_host := Some ''h'', pg_user := Some ''u''\<rparr>)
     = Inl (IncompleteGroup ''pg'' [''--pg-password'', ''--pg-db'']) \<and>
   provided (no_flags\<lparr>mysql_password := Some ''p''\<rparr>) requiredMysqlFlags \<noteq> [] \<and>
   missing (no_flags\<lparr>mysql_password := Some ''p''\<rparr>) requiredMysqlFlags
     = [''--mysql-host'', ''--mysql-user''] \<and>
   provided (no_flags\<lparr>mysql_password := Some ''p''\<rparr>) requiredPostgresFlags = [] \<and>
   getCredentialsByFlags URL_parse (no_flags\<lparr>mysql_password := Some ''p''\<rparr>)
     = Inl (IncompleteGroup ''mysql'' [''--mysql-host'', ''--mysql-user''])"
proof -
  let ?pg = "no_flags\<lparr>pg_host := Some ''h'', pg_user := Some ''u''\<rparr>"
  let ?my = "no_flags\<lparr>mysql_password := Some ''p''\<rparr>"
  have pg: "provided ?pg requiredPostgresFlags \<noteq> []"
    "missing ?pg requiredPostgresFlags = [''--pg-password'', ''--pg-db'']"
    "provided ?pg requiredMysqlFlags = []"
    by code_simp+
  have my: "provided ?my requiredMysqlFlags \<noteq> []"
    "missing ?my requiredMysqlFlags = [''--mysql-host'', ''--mysql-user'']"
    "provided ?my requiredPostgresFlags = []"
    by code_simp+
  from incomplete_group_names_missing_flags[of ?pg URL_parse]
       incomplete_group_names_missing_flags[of ?my URL_parse] pg my
  show ?thesis by simp
qed

text \<open>
  The claim as stated fails: with \<^verbatim>\<open>--pg-host\<close> and \<^verbatim>\<open>--mysql-host\<close> the Postgres group is
  given in part, and the error is the mutual exclusion error, which is tested first.
\<close>

theorem partial_group_with_other_family_counterexample:
  "provided (no_flags\<lparr>pg_host := Some ''h'', mysql_host := Some ''h''\<rparr>) requiredPostgresFlags \<noteq> [] \<and>
   missing (no_flags\<lparr>pg_host := Some ''h'', mysql_host := Some ''h''\<rparr>) requiredPostgresFlags
     = [''--pg-user'', ''--pg-password'', ''--pg-db''] \<and>
   getCredentialsByFlags URL_parse (no_flags\<lparr>pg_host := Some ''h'', mysql_host := Some ''h''\<rparr>)
     = Inl MutualExclusion"
  by code_simp

text \<open>
  C2, as amended. When all four required Postgres flags are given and no required
  MySQL flag is, the resolver returns Postgres credentials whose port is
  \<^verbatim>\<open>parseInt\<close> of the value of \<^verbatim>\<open>--pg-port\<close>; without a \<^verbatim>\<open>--pg-port\<close> flag that value is
  \<^verbatim>\<open>undefined\<close> and the port is \<^verbatim>\<open>NaN\<close>: no default port is put in its place, and the
  port is not left unset either.
\<close>

theorem postgres_port_is_parseInt:
  assumes "missing args requiredPostgresFlags = []" and "provided args requiredMysqlFlags = []"
  shows "\<exists>c. getCredentialsByFlags parseURL args = Inr (Some c) \<and> type c = postgres \<and>
           port c = Some (parseInt (pg_port args)) \<and>
           (pg_port args = None \<longrightarrow> port c = Some NaN)"
  using assms required_nonempty(1)[OF assms(1)] required_nonempty(4)[OF assms(2)]
  by (simp add: getCredentialsByFlags_cases parseInt_def isWhiteSpace_def isDigit_def)

text \<open>Witness: the four flags without a port, and with \<^verbatim>\<open>--pg-port=5432\<close>.\<close>

theorem postgres_port_is_parseInt_witness:
  "missing (no_flags\<lparr>pg_host := Some ''h'', pg_user := Some ''u'', pg_password := Some ''p'',
      pg_db := Some ''d''\<rparr>) requiredPostgresFlags = [] \<and>
   provided (no_flags\<lparr>pg_host := Some ''h'', pg_user := Some ''u'', pg_password := Some ''p'',
      pg_db := Some ''d''\<rparr>) requiredMysqlFlags = [] \<and>
   (\<exists>c. getCredentialsByFlags URL_parse (no_flags\<lparr>pg_host := Some ''h'', pg_user := Some ''u'',
           pg_password := Some ''p'', pg_db := Some ''d''\<rparr>) = Inr (Some c) \<and>
        type c = postgres \<and> port c = Some NaN) \<and>
   missing (no_flags\<lparr>pg_host := Some ''h'', pg_user := Some ''u'', pg_password := Some ''p'',
      pg_db := Some ''d'', pg_port := Some ''5432''\<rparr>) requiredPostgresFlags = [] \<and>
   provided (no_flags\<lparr>pg_host := Some ''h'', pg_user := Some ''u'', pg_password := Some ''p'',
      pg_db := Some ''d'', pg_port := Some ''5432''\<rparr>) requiredMysqlFlags = [] \<and>
   (\<exists>c. getCredentialsByFlags URL_parse (no_flags\<lparr>pg_host := Some ''h'', pg_user := Some ''u'',
           pg_password := Some ''p'', pg_db := Some ''d'', pg_port := Some ''5432''\<rparr>)
          = Inr (Some c) \<and>
        type c = postgres \<and> port c = Some (Num 5432))"
proof -
  let ?a = "no_flags\<lparr>pg_host := Some ''h'', pg_user := Some ''u'', pg_password := Some ''p'',
      pg_db := Some ''d''\<rparr>"
  let ?b = "no_flags\<lparr>pg_host := Some ''h'', pg_user := Some ''u'', pg_password := Some ''p'',
      pg_db := Some ''d'', pg_port := Some ''5432''\<rparr>"
  have a: "missing ?a requiredPostgresFlags = []" "provided ?a requiredMysqlFlags = []"
    by code_simp+
  have b: "missing ?b requiredPostgresFlags = []" "provided ?b requiredMysqlFlags = []"
    by code_simp+
  have pa: "pg_port ?a = None" by (simp add: no_flags_def)
  have pb: "parseInt (pg_port ?b) = Num 5432" by code_simp
  from postgres_port_is_parseInt[OF a, of URL_parse] pa
  have ca: "\<exists>c. getCredentialsByFlags URL_parse ?a = Inr (Some c) \<and>
        type c = postgres \<and> port c = Some NaN"
    by auto
  from postgres_port_is_parseInt[OF b, of URL_parse] pb
  have cb: "\<exists>c. getCredentialsByFlags URL_parse ?b = Inr (Some c) \<and>
        type c = postgres \<and> port c = Some (Num 5432)"
    by auto
  from a b ca cb show ?thesis by blast
qed

text \<open>
  The claim as stated fails: with \<^verbatim>\<open>--pg-host=h --pg-user=u --pg-password=p --pg-db=d\<close>
  and no \<^verbatim>\<open>--pg-port\<close>, the port of the credentials is the number \<^verbatim>\<open>NaN\<close>, not
  \<^verbatim>\<open>undefined\<close>.
\<close>

theorem postgres_port_without_flag_counterexample:
  "getCredentialsByFlags URL_parse (no_flags\<lparr>pg_host := Some ''h'', pg_user := Some ''u'',
       pg_password := Some ''p'', pg_db := Some ''d''\<rparr>)
     = Inr (Some \<lparr>type = postgres, host = Some ''h'', port = Some NaN, user = Some ''u'',
                   password = Some ''p'', database = Some ''d'', schema = None, uri = None\<rparr>)"
  by code_simp



section \<open>Verification: Mongo URI helpers\<close>

text \<open>
  C6, as amended. For a URI that parses, \<open>populateMongoDatabase\<close> throws the missing
  database error exactly when the path of the URI is empty or \<^verbatim>\<open>/\<close> and the database
  argument is absent or the empty string. A non-empty database argument is returned as
  the database, whatever the path. Otherwise the database is the path without its
  first character, the leading slash.
\<close>

theorem populateMongoDatabase_database:
  assumes "parseURL u = Some url"
  shows "(populateMongoDatabase parseURL u db = Inl MissingDatabase
            \<longleftrightarrow> (pathname url = [] \<or> pathname url = ''/'') \<and> \<not> truthy db) \<and>
         (truthy db
            \<longrightarrow> populateMongoDatabase parseURL u db
                  = Inr \<lparr>uri' = u, database' = the db\<rparr>) \<and>
         (\<not> truthy db \<and> pathname url \<noteq> [] \<and> pathname url \<noteq> ''/''
            \<longrightarrow> populateMongoDatabase parseURL u db
                  = Inr \<lparr>uri' = u, database' = drop 1 (pathname url)\<rparr>)"
  using assms by (auto simp: populateMongoDatabase_def)

text \<open>Witness: the three examples of the specification.\<close>

theorem populateMongoDatabase_database_witness:
  "URL_parse ''mongodb://host/''
     = Some \<lparr>origin_part = ''mongodb://host'', pathname = ''/'', search_hash = [],
             opaque_path = False\<rparr> \<and>
   populateMongoDatabase URL_parse ''mongodb://host/'' None = Inl MissingDatabase \<and>
   populateMongoDatabase URL_parse ''mongodb://host/'' (Some ''explicit'')
     = Inr \<lparr>uri' = ''mongodb://host/'', database' = ''explicit''\<rparr> \<and>
   URL_parse ''mongodb://host/mydb''
     = Some \<lparr>origin_part = ''mongodb://host'', pathname = ''/mydb'', search_hash = [],
             opaque_path = False\<rparr> \<and>
   populateMongoDatabase URL_parse ''mongodb://host/mydb'' None
     = Inr \<lparr>uri' = ''mongodb://host/mydb'', database' = ''mydb''\<rparr>"
proof -
  have root: "URL_parse ''mongodb://host/''
     = Some \<lparr>origin_part = ''mongodb://host'', pathname = ''/'', search_hash = [],
             opaque_path = False\<rparr>"
    by code_simp
  have mydb: "URL_parse ''mongodb://host/mydb''
     = Some \<lparr>origin_part = ''mongodb://host'', pathname = ''/mydb'', search_hash = [],
             opaque_path = False\<rparr>"
    by code_simp
  from populateMongoDatabase_database
         [where parseURL = URL_parse and u = "''mongodb://host/''" and db = None, OF root]
       populateMongoDatabase_database
         [where parseURL = URL_parse and u = "''mongodb://host/''" and db = "Some ''explicit''",
          OF root]
       populateMongoDatabase_database
         [where parseURL = URL_parse and u = "''mongodb://host/mydb''" and db = None, OF mydb]
       root mydb
  show ?thesis by (simp add: truthy_def)
qed

text \<open>
  The claim as stated fails for a database argument that is given as the empty string:
  it is not returned as the database (the path gives the database), and with the root
  path the missing database error is thrown although the argument was given.
\<close>

theorem populateMongoDatabase_empty_database_counterexample:
  "populateMongoDatabase URL_parse ''mongodb://host/mydb'' (Some [])
     = Inr \<lparr>uri' = ''mongodb://host/mydb'', database' = ''mydb''\<rparr> \<and>
   populateMongoDatabase URL_parse ''mongodb://host/'' (Some []) = Inl MissingDatabase"
  by code_simp

text \<open>
  C8, as amended. For a URI that parses: when its path is empty or \<^verbatim>\<open>/\<close> and the URI
  has a hierarchy (its path is not opaque), \<open>sanitizeMongoUri\<close> returns the same URL
  with the path \<^verbatim>\<open>/admin\<close>; when its path is neither empty nor \<^verbatim>\<open>/\<close>, the URL is returned
  with its path unchanged.
\<close>

theorem sanitizeMongoUri_path:
  assumes "parseURL mongoUri = Some url"
  shows "((pathname url = [] \<or> pathname url = ''/'') \<and> \<not> opaque_path url
            \<longrightarrow> sanitizeMongoUri parseURL mongoUri
                  = Inr (URL_toString (url\<lparr>pathname := ''/admin''\<rparr>))) \<and>
         (pathname url \<noteq> [] \<and> pathname url \<noteq> ''/''
            \<longrightarrow> sanitizeMongoUri parseURL mongoUri = Inr (URL_toString url))"
  using assms by (auto simp: sanitizeMongoUri_def set_pathname_def)

text \<open>Witness: a URI without a path, and one with the path \<^verbatim>\<open>/mydb\<close> and a query.\<close>

theorem sanitizeMongoUri_path_witness:
  "URL_parse ''mongodb://host''
     = Some \<lparr>origin_part = ''mongodb://host'', pathname = [], search_hash = [],
             opaque_path = False\<rparr> \<and>
   sanitizeMongoUri URL_parse ''mongodb://host'' = Inr ''mongodb://host/admin'' \<and>
   URL_parse ''mongodb://host/mydb?ssl=true''
     = Some \<lparr>origin_part = ''mongodb://host'', pathname = ''/mydb'', search_hash = ''?ssl=true'',
             opaque_path = False\<rparr> \<and>
   sanitizeMongoUri URL_parse ''mongodb://host/mydb?ssl=true'' = Inr ''mongodb://host/mydb?ssl=true''"
proof -
  have bare: "URL_parse ''mongodb://host''
     = Some \<lparr>origin_part = ''mongodb://host'', pathname = [], search_hash = [],
             opaque_path = False\<rparr>"
    by code_simp
  have mydb: "URL_parse ''mongodb://host/mydb?ssl=true''
     = Some \<lparr>origin_part = ''mongodb://host'', pathname = ''/mydb'', search_hash = ''?ssl=true'',
             opaque_path = False\<rparr>"
    by code_simp
  from sanitizeMongoUri_path
         [where parseURL = URL_parse and mongoUri = "''mongodb://host''", OF bare]
       sanitizeMongoUri_path
         [where parseURL = URL_parse and mongoUri = "''mongodb://host/mydb?ssl=true''", OF mydb]
       bare mydb
  show ?thesis by (simp add: URL_toString_def)
qed

text \<open>
  The claim as stated fails for a URI with an empty opaque path: \<^verbatim>\<open>mongodb:\<close> has the
  empty path, the assignment to \<^verbatim>\<open>pathname\<close> leaves it as it is, and the URI returned
  still has the empty path.
\<close>

theorem sanitizeMongoUri_opaque_counterexample:
  "URL_parse ''mongodb:''
     = Some \<lparr>origin_part = ''mongodb:'', pathname = [], search_hash = [], opaque_path = True\<rparr> \<and>
   sanitizeMongoUri URL_parse ''mongodb:'' = Inr ''mongodb:''"
  by code_simp

text \<open>
  C10. Whenever \<open>populateMongoDatabase\<close> returns, the \<^verbatim>\<open>uri\<close> of its result is the
  \<^verbatim>\<open>uri\<close> it was given, unchanged. The rewriting of the URI is the caller's: the URI of
  Mongo credentials returned by the resolver is \<open>sanitizeMongoUri\<close> of the value of
  \<^verbatim>\<open>--mongo-uri\<close>.
\<close>

theorem populateMongoDatabase_keeps_uri:
  "(populateMongoDatabase parseURL u d = Inr r \<longrightarrow> uri' r = u) \<and>
   (getCredentialsByFlags parseURL args = Inr (Some c) \<and> type c = mongo
      \<longrightarrow> sanitizeMongoUri parseURL (the (mongo_uri args)) = Inr (the (uri c)))"
proof -
  have keep: "\<And>u d r. populateMongoDatabase parseURL u d = Inr r \<Longrightarrow> uri' r = u"
    by (auto simp: populateMongoDatabase_def split: option.splits if_splits)
  have "sanitizeMongoUri parseURL (the (mongo_uri args)) = Inr (the (uri c))"
    if "getCredentialsByFlags parseURL args = Inr (Some c)" "type c = mongo"
    using that keep[of "the (mongo_uri args)" "mongo_db args"]
    by (auto simp: getCredentialsByFlags_cases split: if_splits sum.splits)
  with keep show ?thesis by blast
qed

text \<open>
  Witness: \<^verbatim>\<open>mongodb://host\<close> with the database \<^verbatim>\<open>db\<close>; the helper keeps the URI, the
  resolver returns it with the path \<^verbatim>\<open>/admin\<close>.
\<close>

theorem populateMongoDatabase_keeps_uri_witness:
  "populateMongoDatabase URL_parse ''mongodb://host'' (Some ''db'')
     = Inr \<lparr>uri' = ''mongodb://host'', database' = ''db''\<rparr> \<and>
   uri' \<lparr>uri' = ''mongodb://host'', database' = ''db''\<rparr> = ''mongodb://host'' \<and>
   getCredentialsByFlags URL_parse
       (no_flags\<lparr>mongo_uri := Some ''mongodb://host'', mongo_db := Some ''db''\<rparr>)
     = Inr (Some \<lparr>type = mongo, host = None, port = None, user = None, password = None,
                   database = None, schema = Some ''db'', uri = Some ''mongodb://host/admin''\<rparr>) \<and>
   sanitizeMongoUri URL_parse ''mongodb://host'' = Inr ''mongodb://host/admin''"
proof -
  let ?args = "no_flags\<lparr>mongo_uri := Some ''mongodb://host'', mongo_db := Some ''db''\<rparr>"
  let ?c = "\<lparr>type = mongo, host = None, port = None, user = None, password = None,
                   database = None, schema = Some ''db'', uri = Some ''mongodb://host/admin''\<rparr>"
  have pop: "populateMongoDatabase URL_parse ''mongodb://host'' (Some ''db'')
     = Inr \<lparr>uri' = ''mongodb://host'', database' = ''db''\<rparr>"
    by code_simp
  have res: "getCredentialsByFlags URL_parse ?args = Inr (Some ?c)"
    by code_simp
  from populateMongoDatabase_keeps_uri
         [of URL_parse "''mongodb://host''" "Some ''db''"
             "\<lparr>uri' = ''mongodb://host'', database' = ''db''\<rparr>" ?args ?c] pop res
  show ?thesis by (simp add: no_flags_def)
qed

section \<open>Verification: select handler\<close>

text \<open>
  C3. When a select element is selected while the spinner of its index is running,
  the handler makes no call of an \<^verbatim>\<open>onSelect\<close> action: the element's action is not
  invoked a second time, for as long as the spinner state of that index stays
  \<^verbatim>\<open>running\<close>. This holds for every element, with or without an action, and every
  selected value. The one call the handler makes then is \<^verbatim>\<open>submitPrompt(value)\<close>.
\<close>

theorem running_select_does_not_invoke_action:
  assumes "spinnersByCursor elemIndex = Some running"
  shows "(\<forall>a i w. InvokeOnSelect a i w
            \<notin> set (select_handler spinnersByCursor e_onSelect elemIndex v)) \<and>
         select_handler spinnersByCursor e_onSelect elemIndex v = [SubmitPrompt v False]"
  using assms by (simp add: select_handler_def)

text \<open>
  Witness: the first selection of the element at index 7 invokes its action; once the
  action has started the spinner, a second selection invokes no action.
\<close>

theorem running_select_does_not_invoke_action_witness:
  "addSpinner 7 Map.empty 7 = Some running \<and>
   select_handler Map.empty (Some 0) 7 (Some ''test'') = [InvokeOnSelect 0 7 (Some ''test'')] \<and>
   InvokeOnSelect 0 7 (Some ''test'')
     \<notin> set (select_handler (addSpinner 7 Map.empty) (Some 0) 7 (Some ''test'')) \<and>
   select_handler (addSpinner 7 Map.empty) (Some 0) 7 (Some ''test'')
     = [SubmitPrompt (Some ''test'') False]"
proof -
  have r: "addSpinner 7 Map.empty 7 = Some running" by (simp add: addSpinner_def)
  from running_select_does_not_invoke_action
         [where spinnersByCursor = "addSpinner 7 Map.empty" and elemIndex = 7
            and e_onSelect = "Some 0" and v = "Some ''test''", OF r] r
  show ?thesis by (simp add: select_handler_def)
qed

end
